theory Spec2Isabelle
  imports Complex_Main
begin

section \<open>Python values, errors and dictionaries\<close>

text \<open>
  The module \<^verbatim>\<open>model.py\<close> glues three external libraries together: the backbone
  and the detector (torch, torchvision, rexnetv1), the training loop (pytorch_lightning)
  and the metric (mean_average_precision). The embedding keeps the code of
  \<^verbatim>\<open>model.py\<close> as functions and takes every call into one of those libraries as
  a parameter, so that each theorem holds for whatever the library computes.

  Exceptions are values: a function that can raise returns \<open>error + 'a\<close>, with
  \<open>Inl\<close> for the exception.
\<close>

datatype error = TypeError | KeyError | IndexError | ValueError | AssertionError | RuntimeError

text \<open>Values that travel through \<^verbatim>\<open>**kwargs\<close>.\<close>

datatype pyval =
    PyNone
  | PyBool bool
  | PyInt int
  | PyFloat real
  | PyStr string
  | PyList "pyval list"

text \<open>The truth value Python gives to \<^verbatim>\<open>if v:\<close>.\<close>

fun truthy :: "pyval \<Rightarrow> bool" where
  "truthy PyNone = False"
| "truthy (PyBool b) = b"
| "truthy (PyInt i) = (i \<noteq> 0)"
| "truthy (PyFloat r) = (r \<noteq> 0)"
| "truthy (PyStr s) = (s \<noteq> [])"
| "truthy (PyList vs) = (vs \<noteq> [])"

text \<open>
  A \<^verbatim>\<open>dict\<close> is a list of key/value pairs in insertion order with no key twice.
  \<open>dict_set\<close> is \<^verbatim>\<open>d[k] = v\<close>: a key already present keeps its place.
\<close>

type_synonym ('k, 'v) dict = "('k \<times> 'v) list"

fun dict_get :: "('k, 'v) dict \<Rightarrow> 'k \<Rightarrow> 'v option" where
  "dict_get [] k = None"
| "dict_get ((k', v) # d) k = (if k' = k then Some v else dict_get d k)"

fun dict_set :: "('k, 'v) dict \<Rightarrow> 'k \<Rightarrow> 'v \<Rightarrow> ('k, 'v) dict" where
  "dict_set [] k v = [(k, v)]"
| "dict_set ((k', v') # d) k v =
     (if k' = k then (k, v) # d else (k', v') # dict_set d k v)"

text \<open>\<^verbatim>\<open>d[k]\<close>, which raises \<^verbatim>\<open>KeyError\<close> for a missing key.\<close>

definition dict_index :: "('k, 'v) dict \<Rightarrow> 'k \<Rightarrow> error + 'v" where
  "dict_index d k = (case dict_get d k of None \<Rightarrow> Inl KeyError | Some v \<Rightarrow> Inr v)"

text \<open>
  Keyword arguments (\<^verbatim>\<open>**kwargs\<close>) are read by name only, so they are a map from
  names to values; \<^verbatim>\<open>{**a, **b}\<close> is then \<open>a ++ b\<close>.
\<close>

type_synonym kwargs = "string \<rightharpoonup> pyval"

text \<open>\<^verbatim>\<open>str(n)\<close> for a non-negative integer.\<close>

definition digit_char :: "nat \<Rightarrow> char" where
  "digit_char d = char_of (48 + d)"

function str :: "nat \<Rightarrow> string" where
  "str n = (if n < 10 then [digit_char n] else str (n div 10) @ [digit_char (n mod 10)])"
  by pat_completeness auto
termination
  by (relation "measure id") auto

declare str.simps [simp del]

text \<open>
  \<^verbatim>\<open>xs[:stop]\<close>: a negative \<open>stop\<close> counts from the end, and a \<open>stop\<close> beyond
  either end is clipped, never an error.
\<close>

definition slice_to :: "'a list \<Rightarrow> int \<Rightarrow> 'a list" where
  "slice_to xs stop =
     (let n = int (length xs);
          e = (if stop < 0 then max 0 (n + stop) else min stop n)
      in take (nat e) xs)"


section \<open>ReXNetSSDBackbone\<close>

text \<open>
  A layer of the pretrained network is its weights and the \<^verbatim>\<open>requires_grad\<close> flag
  of its parameters. Of a \<^verbatim>\<open>ReXNetV1\<close> instance the module only ever reads
  \<^verbatim>\<open>features\<close>.
\<close>

record 'w layer =
  weights :: 'w
  requires_grad :: bool

record 'w ReXNetV1 =
  features :: "'w layer list"

text \<open>
  A \<^verbatim>\<open>LinearBottleneck\<close> is identified with the arguments of its constructor
  (\<open>t_ratio\<close> is the argument \<^verbatim>\<open>t\<close>).
\<close>

record LinearBottleneck =
  in_channels :: int
  channels :: int
  t_ratio :: int
  stride :: int
  use_se :: bool
  se_ratio :: int

record 'w ReXNetSSDBackbone =
  backbone :: "'w layer list"
  backbone_tails :: "LinearBottleneck list"

definition tail_args :: "(int \<times> int \<times> int \<times> int \<times> bool \<times> int) list" where
  "tail_args =
     [(128, 672, 1, 1, False, 12),
      (672, 480, 1, 2, False, 12),
      (480, 512, 1, 2, False, 12),
      (512, 256, 1, 2, False, 12),
      (256, 256, 1, 2, False, 12),
      (256, 128, 1, 1, False, 12)]"

definition ReXNetSSDBackbone_init :: "'w ReXNetV1 \<Rightarrow> 'w ReXNetSSDBackbone" where
  "ReXNetSSDBackbone_init rexnetv1 =
     \<lparr>backbone = slice_to (features rexnetv1) (- 9),
      backbone_tails =
        map (\<lambda>(in_c, c, t, s, se, se_r).
               \<lparr>in_channels = in_c, channels = c, t_ratio = t, stride = s,
                use_se = se, se_ratio = se_r\<rparr>)
            tail_args\<rparr>"

text \<open>
  \<^verbatim>\<open>forward\<close>. What a stack of pretrained layers and what one tail layer compute
  on a tensor are the parameters \<open>sequential\<close> and \<open>bottleneck\<close>. The loop runs
  \<open>idx\<close> over \<^verbatim>\<open>range(len(self.backbone_tails))\<close>.
\<close>

function forward_loop ::
  "(LinearBottleneck \<Rightarrow> 't \<Rightarrow> 't) \<Rightarrow> LinearBottleneck list \<Rightarrow> nat \<Rightarrow> 't \<Rightarrow>
   (string, 't) dict \<Rightarrow> (string, 't) dict" where
  "forward_loop bottleneck tails idx x result_dicts =
     (if idx < length tails then
        (let x' = bottleneck (tails ! idx) x
         in forward_loop bottleneck tails (idx + 1) x' (dict_set result_dicts (str idx) x'))
      else result_dicts)"
  by pat_completeness auto
termination
  by (relation "measure (\<lambda>(b, tails, idx, x, d). length tails - idx)") auto

declare forward_loop.simps [simp del]

definition forward ::
  "('w layer list \<Rightarrow> 't \<Rightarrow> 't) \<Rightarrow> (LinearBottleneck \<Rightarrow> 't \<Rightarrow> 't) \<Rightarrow>
   'w ReXNetSSDBackbone \<Rightarrow> 't \<Rightarrow> (string, 't) dict" where
  "forward sequential bottleneck self x =
     forward_loop bottleneck (backbone_tails self) 0 (sequential (backbone self) x) []"


section \<open>The detector factory\<close>

text \<open>
  The objects of torchvision that the factory builds are identified with the arguments
  their constructors receive. \<open>norm_layer\<close> is the partial application
  \<^verbatim>\<open>partial(nn.BatchNorm2d, eps=0.001, momentum=0.03)\<close>.
\<close>

record DefaultBoxGenerator =
  aspect_ratios :: "int list list"
  min_ratio :: real
  max_ratio :: real

record norm_layer =
  eps :: real
  momentum :: real

record SSDLiteHead =
  head_in_channels :: "int list"
  head_num_anchors :: "int list"
  head_num_classes :: pyval
  head_norm_layer :: norm_layer

record 'w SSD =
  ssd_backbone :: "'w ReXNetSSDBackbone"
  ssd_anchor_generator :: DefaultBoxGenerator
  ssd_size :: "int \<times> int"
  ssd_num_classes :: pyval
  ssd_head :: SSDLiteHead
  ssd_kwargs :: kwargs

text \<open>
  What the factory calls in torch, torchvision and rexnetv1: the constructor
  \<^verbatim>\<open>ReXNetV1()\<close>, \<^verbatim>\<open>backbone.load_state_dict(torch.load(path))\<close> (which can
  raise), \<^verbatim>\<open>det_utils.retrieve_out_channels\<close> and
  \<^verbatim>\<open>anchor_generator.num_anchors_per_location()\<close>.
\<close>

record 'w torch =
  new_ReXNetV1 :: "'w ReXNetV1"
  load_state_dict :: "pyval \<Rightarrow> 'w ReXNetV1 \<Rightarrow> error + 'w ReXNetV1"
  retrieve_out_channels :: "'w ReXNetSSDBackbone \<Rightarrow> int \<times> int \<Rightarrow> int list"
  num_anchors_per_location :: "DefaultBoxGenerator \<Rightarrow> int list"

definition defaults :: kwargs where
  "defaults =
     [''score_thresh'' \<mapsto> PyFloat 0.001,
      ''nms_thresh'' \<mapsto> PyFloat 0.55,
      ''detections_per_img'' \<mapsto> PyInt 300,
      ''topk_candidates'' \<mapsto> PyInt 300,
      ''image_mean'' \<mapsto> PyList [PyFloat 0.5, PyFloat 0.5, PyFloat 0.5],
      ''image_std'' \<mapsto> PyList [PyFloat 0.5, PyFloat 0.5, PyFloat 0.5]]"

text \<open>
  \<^verbatim>\<open>ssdlite224_rexnet_v1(backbone_weight_path, is_freeze_base_net, num_classes, **kwargs)\<close>.
  The \<^verbatim>\<open>assert\<close> is a branch, and so is the \<^verbatim>\<open>TypeError\<close> Python raises
  when \<^verbatim>\<open>**kwargs\<close> repeats an argument that the call to \<^verbatim>\<open>SSD\<close> already
  passes: the keyword \<^verbatim>\<open>head\<close>, or the name of a parameter filled by position
  (\<^verbatim>\<open>backbone\<close>, \<^verbatim>\<open>anchor_generator\<close>, \<^verbatim>\<open>size\<close>; the fourth,
  \<^verbatim>\<open>num_classes\<close>, is a parameter of the factory itself and so never among its
  \<^verbatim>\<open>**kwargs\<close>). What the constructors of torchvision raise on their own is not
  part of the model, and neither are the messages to loguru.
\<close>

definition ssdlite224_rexnet_v1 ::
  "'w torch \<Rightarrow> pyval \<Rightarrow> pyval \<Rightarrow> pyval \<Rightarrow> kwargs \<Rightarrow> error + 'w SSD" where
  "ssdlite224_rexnet_v1 lib backbone_weight_path is_freeze_base_net num_classes kwargs =
     (let fresh = new_ReXNetV1 lib;
          net = (if truthy is_freeze_base_net
                 then fresh\<lparr>features := map (\<lambda>l. l\<lparr>requires_grad := False\<rparr>) (features fresh)\<rparr>
                 else fresh)
      in case (if backbone_weight_path \<noteq> PyNone
               then load_state_dict lib backbone_weight_path net
               else Inr net) of
           Inl e \<Rightarrow> Inl e
         | Inr loaded \<Rightarrow>
             (let backbone = ReXNetSSDBackbone_init loaded;
                  norm_layer = \<lparr>eps = 0.001, momentum = 0.03\<rparr>;
                  size = (320, 320);
                  anchor_generator =
                    \<lparr>aspect_ratios = replicate 6 [2, 3], min_ratio = 0.2, max_ratio = 0.95\<rparr>;
                  out_channels = retrieve_out_channels lib backbone size;
                  num_anchors = num_anchors_per_location lib anchor_generator
              in if length out_channels \<noteq> length (aspect_ratios anchor_generator)
                 then Inl AssertionError
                 else
                   (let kwargs' = defaults ++ kwargs
                    in if list_ex (\<lambda>name. kwargs' name \<noteq> None)
                            [''head'', ''backbone'', ''anchor_generator'', ''size'']
                       then Inl TypeError
                       else Inr \<lparr>ssd_backbone = backbone,
                                 ssd_anchor_generator = anchor_generator,
                                 ssd_size = size,
                                 ssd_num_classes = num_classes,
                                 ssd_head =
                                   \<lparr>head_in_channels = out_channels,
                                    head_num_anchors = num_anchors,
                                    head_num_classes = num_classes,
                                    head_norm_layer = norm_layer\<rparr>,
                                 ssd_kwargs = kwargs'\<rparr>)))"

text \<open>
  The call \<^verbatim>\<open>ssdlite224_rexnet_v1(**kwargs)\<close>: Python binds the three named
  parameters from the keywords, raises \<^verbatim>\<open>TypeError\<close> when one without a default
  is missing, and leaves the other keywords in the callee's \<^verbatim>\<open>**kwargs\<close>.
\<close>

definition ssdlite224_rexnet_v1_call :: "'w torch \<Rightarrow> kwargs \<Rightarrow> error + 'w SSD" where
  "ssdlite224_rexnet_v1_call lib kwargs =
     (case kwargs ''backbone_weight_path'' of
        None \<Rightarrow> Inl TypeError
      | Some backbone_weight_path \<Rightarrow>
          (case kwargs ''is_freeze_base_net'' of
             None \<Rightarrow> Inl TypeError
           | Some is_freeze_base_net \<Rightarrow>
               ssdlite224_rexnet_v1 lib backbone_weight_path is_freeze_base_net
                 (case kwargs ''num_classes'' of None \<Rightarrow> PyInt 80 | Some n \<Rightarrow> n)
                 (kwargs |` (- {''backbone_weight_path'', ''is_freeze_base_net'',
                               ''num_classes''}))))"


section \<open>ReXNetSSD\<close>

text \<open>
  The metric object of mean_average_precision is a state \<open>'ms\<close> with the four
  operations the module calls: \<^verbatim>\<open>MetricBuilder.build_evaluation_metric(name,
  async_mode, num_classes)\<close>, \<^verbatim>\<open>reset()\<close>, \<^verbatim>\<open>add(preds, gt)\<close> and
  \<^verbatim>\<open>value(iou_thresholds)\<close>. A two-dimensional array is the list of its rows.
\<close>

type_synonym ndarray = "real list list"

record 'ms MetricBuilder =
  build_evaluation_metric :: "string \<Rightarrow> bool \<Rightarrow> int \<Rightarrow> 'ms"
  metric_reset :: "'ms \<Rightarrow> 'ms"
  metric_add :: "'ms \<Rightarrow> ndarray \<Rightarrow> ndarray \<Rightarrow> 'ms"
  metric_value :: "'ms \<Rightarrow> real \<Rightarrow> (string, real) dict"

text \<open>
  A box is a row \<^verbatim>\<open>[x1, y1, x2, y2]\<close>. The detector returns one \<open>detection\<close>
  per image in evaluation mode; the data set gives one \<open>annotation\<close> per image.
\<close>

type_synonym box = "real \<times> real \<times> real \<times> real"

record detection =
  boxes :: "box list"
  scores :: "real list"
  labels :: "int list"

record annotation =
  ann_boxes :: "box list"
  ann_labels :: "int list"

text \<open>
  The wrapped detector is called in two ways: with images and annotations, giving the
  dict of losses, and with images only, giving the detections.
\<close>

record ('w, 'img) detector =
  losses :: "'w SSD \<Rightarrow> 'img list \<Rightarrow> annotation list \<Rightarrow> (string, real) dict"
  detections :: "'w SSD \<Rightarrow> 'img list \<Rightarrow> detection list"

text \<open>
  The fields of a \<^verbatim>\<open>ReXNetSSD\<close>; \<open>logged\<close> collects the calls of
  \<^verbatim>\<open>self.log(name, value)\<close> in their order. A method that raises returns only
  the exception, not the object as it was when the exception left it. The methods
  \<^verbatim>\<open>forward\<close> and \<^verbatim>\<open>configure_optimizers\<close> and the function
  \<^verbatim>\<open>collate_batch\<close> pass their arguments on to a library and have no part in
  what follows.
\<close>

record ('w, 'ms) ReXNetSSD =
  model :: "'w SSD option"
  metric_fn :: 'ms
  num_classes :: pyval
  logged :: "(string \<times> real) list"

definition ReXNetSSD_init ::
  "'w torch \<Rightarrow> 'ms MetricBuilder \<Rightarrow> 'w SSD option \<Rightarrow> pyval \<Rightarrow> error + ('w, 'ms) ReXNetSSD" where
  "ReXNetSSD_init lib mlib rexnet_ssd_model num_classes' =
     (case (if rexnet_ssd_model = None \<and> num_classes' = PyNone
            then map_sum id Some (ssdlite224_rexnet_v1 lib PyNone PyNone (PyInt 20) Map.empty)
            else Inr rexnet_ssd_model) of
        Inl e \<Rightarrow> Inl e
      | Inr m \<Rightarrow>
          Inr \<lparr>model = m,
               metric_fn = build_evaluation_metric mlib ''map_2d'' True 3,
               num_classes = num_classes',
               logged = []\<rparr>)"

definition log :: "('w, 'ms) ReXNetSSD \<Rightarrow> string \<Rightarrow> real \<Rightarrow> ('w, 'ms) ReXNetSSD" where
  "log self name v = self\<lparr>logged := logged self @ [(name, v)]\<rparr>"

text \<open>\<^verbatim>\<open>sum(...)\<close> starts from 0 and adds from the left.\<close>

definition py_sum :: "real list \<Rightarrow> real" where
  "py_sum xs = foldl (+) 0 xs"

text \<open>
  \<^verbatim>\<open>training_step\<close>. Calling \<^verbatim>\<open>self.model\<close> when it is \<^verbatim>\<open>None\<close> raises
  \<^verbatim>\<open>TypeError\<close>.
\<close>

definition training_step ::
  "('w, 'img) detector \<Rightarrow> ('w, 'ms) ReXNetSSD \<Rightarrow> 'img list \<times> annotation list \<Rightarrow> nat \<Rightarrow>
   error + (('w, 'ms) ReXNetSSD \<times> real)" where
  "training_step det self training_batch batch_idx =
     (let (image_batch, annotations_batch) = training_batch
      in case model self of
           None \<Rightarrow> Inl TypeError
         | Some m \<Rightarrow>
             (let loss_dict = losses det m image_batch annotations_batch
              in case dict_index loss_dict ''bbox_regression'' of
                   Inl e \<Rightarrow> Inl e
                 | Inr bbox \<Rightarrow>
                     (let self1 = log self ''train_loss_bbox_regression'' bbox
                      in case dict_index loss_dict ''classification'' of
                           Inl e \<Rightarrow> Inl e
                         | Inr cls \<Rightarrow>
                             (let self2 = log self1 ''train_loss_classification'' cls;
                                  loss = py_sum (map snd loss_dict);
                                  self3 = log self2 ''train_loss'' loss
                              in Inr (self3, loss)))))"

definition on_validation_epoch_start ::
  "'ms MetricBuilder \<Rightarrow> ('w, 'ms) ReXNetSSD \<Rightarrow> ('w, 'ms) ReXNetSSD" where
  "on_validation_epoch_start mlib self = self\<lparr>metric_fn := metric_reset mlib (metric_fn self)\<rparr>"

text \<open>
  numpy: \<^verbatim>\<open>np.expand_dims(v, 1)\<close> makes a column of a vector, and
  \<^verbatim>\<open>np.concatenate(arrays, 1)\<close> joins arrays row by row, raising
  \<^verbatim>\<open>ValueError\<close> unless all have the same number of rows.
\<close>

definition expand_dims1 :: "real list \<Rightarrow> ndarray" where
  "expand_dims1 v = map (\<lambda>a. [a]) v"

fun concatenate1 :: "ndarray list \<Rightarrow> error + ndarray" where
  "concatenate1 [] = Inl ValueError"
| "concatenate1 (a # rest) =
     (if list_all (\<lambda>b. length b = length a) rest
      then Inr (foldl (\<lambda>acc b. map2 (@) acc b) a rest)
      else Inl ValueError)"

definition box_rows :: "box list \<Rightarrow> ndarray" where
  "box_rows bs = map (\<lambda>(x1, y1, x2, y2). [x1, y1, x2, y2]) bs"

text \<open>
  The loop of \<^verbatim>\<open>validation_step\<close> over
  \<^verbatim>\<open>range(len(batched_result))\<close>, threading the metric object. Indexing
  \<^verbatim>\<open>gt_boxes[idx]\<close> beyond the annotations raises \<^verbatim>\<open>IndexError\<close>.
\<close>

function validation_loop ::
  "'ms MetricBuilder \<Rightarrow> detection list \<Rightarrow> box list list \<Rightarrow> int list list \<Rightarrow> nat \<Rightarrow> 'ms \<Rightarrow>
   error + 'ms" where
  "validation_loop mlib batched_result gt_boxes gt_labels idx ms =
     (if idx < length batched_result then
        (let single_result = batched_result ! idx
         in if length gt_boxes \<le> idx \<or> length gt_labels \<le> idx then Inl IndexError
            else
              (let gt_single_boxes = gt_boxes ! idx;
                   gt_single_labels = gt_labels ! idx;
                   boxes' = box_rows (boxes single_result);
                   scores' = expand_dims1 (scores single_result);
                   labels' = expand_dims1 (map real_of_int (labels single_result))
               in case concatenate1 [boxes', labels', scores'] of
                    Inl e \<Rightarrow> Inl e
                  | Inr preds \<Rightarrow>
                      (case concatenate1
                              [box_rows gt_single_boxes,
                               expand_dims1 (map real_of_int gt_single_labels),
                               replicate (length gt_single_boxes) [0, 0]] of
                         Inl e \<Rightarrow> Inl e
                       | Inr gt \<Rightarrow>
                           validation_loop mlib batched_result gt_boxes gt_labels (idx + 1)
                             (metric_add mlib ms preds gt))))
      else Inr ms)"
  by pat_completeness auto
termination
  by (relation "measure (\<lambda>(mlib, res, gb, gl, idx, ms). length res - idx)") auto

declare validation_loop.simps [simp del]

definition validation_step ::
  "('w, 'img) detector \<Rightarrow> 'ms MetricBuilder \<Rightarrow> ('w, 'ms) ReXNetSSD \<Rightarrow>
   'img list \<times> annotation list \<Rightarrow> nat \<Rightarrow> error + (('w, 'ms) ReXNetSSD \<times> real)" where
  "validation_step det mlib self val_batch batch_idx =
     (let (image_batch, annotations_batch) = val_batch;
          gt_boxes = map ann_boxes annotations_batch;
          gt_labels = map ann_labels annotations_batch
      in case model self of
           None \<Rightarrow> Inl TypeError
         | Some m \<Rightarrow>
             (let batched_result = detections det m image_batch
              in case validation_loop mlib batched_result gt_boxes gt_labels 0 (metric_fn self) of
                   Inl e \<Rightarrow> Inl e
                 | Inr ms \<Rightarrow>
                     (case dict_index (metric_value mlib ms 0.5) ''mAP'' of
                        Inl e \<Rightarrow> Inl e
                      | Inr valid_mean_ap \<Rightarrow>
                          Inr (log (self\<lparr>metric_fn := ms\<rparr>) ''valid_mean_ap'' valid_mean_ap,
                               valid_mean_ap))))"

text \<open>
  \<^verbatim>\<open>on_validation_epoch_end\<close> formats the metric's value into a message for the
  logger; the function returns that value.
\<close>

definition on_validation_epoch_end ::
  "'ms MetricBuilder \<Rightarrow> ('w, 'ms) ReXNetSSD \<Rightarrow> error + real" where
  "on_validation_epoch_end mlib self = dict_index (metric_value mlib (metric_fn self) 0.5) ''mAP''"

definition ssdlite224_rexnet_v1_lightning ::
  "'w torch \<Rightarrow> 'ms MetricBuilder \<Rightarrow> kwargs \<Rightarrow> error + ('w, 'ms) ReXNetSSD" where
  "ssdlite224_rexnet_v1_lightning lib mlib kwargs =
     (case ssdlite224_rexnet_v1_call lib kwargs of
        Inl e \<Rightarrow> Inl e
      | Inr model' \<Rightarrow>
          (case kwargs ''num_classes'' of
             None \<Rightarrow> Inl KeyError
           | Some n \<Rightarrow> ReXNetSSD_init lib mlib (Some model') n))"

text \<open>
  One validation epoch as pytorch_lightning runs it: \<^verbatim>\<open>on_validation_epoch_start\<close>,
  then \<^verbatim>\<open>validation_step\<close> on each batch in turn, then
  \<^verbatim>\<open>on_validation_epoch_end\<close>. The result holds the values the steps returned and
  the value reported at the end.
\<close>

fun validation_steps ::
  "('w, 'img) detector \<Rightarrow> 'ms MetricBuilder \<Rightarrow> ('w, 'ms) ReXNetSSD \<Rightarrow>
   ('img list \<times> annotation list) list \<Rightarrow> nat \<Rightarrow> error + (('w, 'ms) ReXNetSSD \<times> real list)" where
  "validation_steps det mlib self [] batch_idx = Inr (self, [])"
| "validation_steps det mlib self (b # bs) batch_idx =
     (case validation_step det mlib self b batch_idx of
        Inl e \<Rightarrow> Inl e
      | Inr (self', v) \<Rightarrow>
          (case validation_steps det mlib self' bs (batch_idx + 1) of
             Inl e \<Rightarrow> Inl e
           | Inr (self'', vs) \<Rightarrow> Inr (self'', v # vs)))"

definition validation_epoch ::
  "('w, 'img) detector \<Rightarrow> 'ms MetricBuilder \<Rightarrow> ('w, 'ms) ReXNetSSD \<Rightarrow>
   ('img list \<times> annotation list) list \<Rightarrow> error + (('w, 'ms) ReXNetSSD \<times> real list \<times> real)" where
  "validation_epoch det mlib self batches =
     (case validation_steps det mlib (on_validation_epoch_start mlib self) batches 0 of
        Inl e \<Rightarrow> Inl e
      | Inr (self', vs) \<Rightarrow>
          (case on_validation_epoch_end mlib self' of
             Inl e \<Rightarrow> Inl e
           | Inr v \<Rightarrow> Inr (self', vs, v)))"


section \<open>The arrays handed to the metric, as the documentation describes them\<close>

text \<open>
  Predictions are rows \<^verbatim>\<open>[x1, y1, x2, y2, label, score]\<close> and ground truth is rows
  \<^verbatim>\<open>[x1, y1, x2, y2, label, 0, 0]\<close>, the two zeros standing for the flags
  \<^verbatim>\<open>difficult\<close> and \<^verbatim>\<open>crowd\<close>. These two functions are written from that
  description, to be compared with what \<open>validation_loop\<close> computes. A detection or
  an annotation is well shaped when it has one score and one label per box.
\<close>

definition preds_rows :: "detection \<Rightarrow> ndarray" where
  "preds_rows d =
     map (\<lambda>((x1, y1, x2, y2), label, score). [x1, y1, x2, y2, real_of_int label, score])
         (zip (boxes d) (zip (labels d) (scores d)))"

definition gt_rows :: "annotation \<Rightarrow> ndarray" where
  "gt_rows a =
     map (\<lambda>((x1, y1, x2, y2), label). [x1, y1, x2, y2, real_of_int label, 0, 0])
         (zip (ann_boxes a) (ann_labels a))"

definition well_shaped_detection :: "detection \<Rightarrow> bool" where
  "well_shaped_detection d \<longleftrightarrow>
     length (scores d) = length (boxes d) \<and> length (labels d) = length (boxes d)"

definition well_shaped_annotation :: "annotation \<Rightarrow> bool" where
  "well_shaped_annotation a \<longleftrightarrow> length (ann_labels a) = length (ann_boxes a)"


section \<open>A concrete instance of the libraries\<close>

text \<open>
  Small stand-ins for the three libraries, on which the functions above can be
  evaluated: a network of twelve layers whose weights load from one path only, a
  detector that finds one box per image, and a metric that remembers how it was built
  and the pairs it was given, and reports how many pairs it holds.
\<close>

definition demo_torch :: "nat torch" where
  "demo_torch =
     \<lparr>new_ReXNetV1 = \<lparr>features = map (\<lambda>i. \<lparr>weights = i, requires_grad = True\<rparr>) [0..<12]\<rparr>,
      load_state_dict = (\<lambda>path net. if path = PyStr ''rexnet.pth'' then Inr net else Inl RuntimeError),
      retrieve_out_channels = (\<lambda>b size. map channels (backbone_tails b)),
      num_anchors_per_location = (\<lambda>g. map (\<lambda>r. 2 + 2 * int (length r)) (aspect_ratios g))\<rparr>"

type_synonym demo_state = "(string \<times> bool \<times> int) \<times> (ndarray \<times> ndarray) list"

definition demo_metric :: "demo_state MetricBuilder" where
  "demo_metric =
     \<lparr>build_evaluation_metric = (\<lambda>name async n. ((name, async, n), [])),
      metric_reset = (\<lambda>(cfg, pairs). (cfg, [])),
      metric_add = (\<lambda>(cfg, pairs) preds gt. (cfg, pairs @ [(preds, gt)])),
      metric_value = (\<lambda>(cfg, pairs) iou. [(''mAP'', real (length pairs))])\<rparr>"

definition demo_detector :: "(nat, nat) detector" where
  "demo_detector =
     \<lparr>losses = (\<lambda>m images annotations. [(''bbox_regression'', 2), (''classification'', 1)]),
      detections = (\<lambda>m images.
        map (\<lambda>i. \<lparr>boxes = [(0, 0, 1, 1)], scores = [1], labels = [2]\<rparr>) images)\<rparr>"


definition demo_ssd :: "nat SSD" where
  "demo_ssd =
     \<lparr>ssd_backbone = ReXNetSSDBackbone_init (new_ReXNetV1 demo_torch),
      ssd_anchor_generator =
        \<lparr>aspect_ratios = replicate 6 [2, 3], min_ratio = 0.2, max_ratio = 0.95\<rparr>,
      ssd_size = (320, 320),
      ssd_num_classes = PyInt 3,
      ssd_head =
        \<lparr>head_in_channels = [672, 480, 512, 256, 256, 128],
         head_num_anchors = [6, 6, 6, 6, 6, 6],
         head_num_classes = PyInt 3,
         head_norm_layer = \<lparr>eps = 0.001, momentum = 0.03\<rparr>\<rparr>,
      ssd_kwargs = defaults\<rparr>"

definition demo_self :: "(nat, demo_state) ReXNetSSD" where
  "demo_self =
     \<lparr>model = Some demo_ssd,
      metric_fn = ((''map_2d'', True, 3), []),
      num_classes = PyInt 3,
      logged = []\<rparr>"

definition demo_annotation :: annotation where
  "demo_annotation = \<lparr>ann_boxes = [(0, 0, 1, 1), (1, 1, 2, 2)], ann_labels = [2, 1]\<rparr>"


text \<open>
  The same object as \<open>demo_self\<close> after an earlier validation step: one pair is
  left in its metric and one value in its log.
\<close>

definition demo_stale :: "(nat, demo_state) ReXNetSSD" where
  "demo_stale =
     demo_self
       \<lparr>metric_fn := ((''map_2d'', True, 3), [([[0, 0, 1, 1, 2, 1]], [[0, 0, 1, 1, 2, 0, 0]])]),
        logged := [(''valid_mean_ap'', 1)]\<rparr>"

text \<open>
  Two objects look the same to \<open>validation_step\<close> when they wrap the same detector
  and hold the same metric state.
\<close>

definition same_view :: "('w, 'ms) ReXNetSSD \<Rightarrow> ('w, 'ms) ReXNetSSD \<Rightarrow> bool" where
  "same_view a b \<longleftrightarrow> model a = model b \<and> metric_fn a = metric_fn b"


section \<open>Properties of ReXNetSSDBackbone\<close>

lemma slice_to_minus_nine: "slice_to xs (- 9) = take (length xs - 9) xs"
  by (simp add: slice_to_def Let_def max_def nat_diff_distrib')

lemma str_digits:
  "str 0 = ''0''"
  "str (Suc 0) = ''1''"
  "str (Suc (Suc 0)) = ''2''"
  "str (Suc (Suc (Suc 0))) = ''3''"
  "str (Suc (Suc (Suc (Suc 0)))) = ''4''"
  "str (Suc (Suc (Suc (Suc (Suc 0))))) = ''5''"
  by code_simp+

lemma length6E:
  assumes "length xs = 6"
  obtains a b c d e f where "xs = [a, b, c, d, e, f]"
proof -
  from assms obtain a b c d e f where "xs = [a, b, c, d, e, f]"
    by (auto simp: length_Suc_conv eval_nat_numeral)
  then show thesis by (rule that)
qed

text \<open>
  Any backbone object with six tails: the loop of \<open>forward\<close> feeds each tail with
  the output of the one before and stores the outputs under \<^verbatim>\<open>'0'\<close> to \<^verbatim>\<open>'5'\<close>.
\<close>

lemma forward_six_tails:
  assumes "length (backbone_tails self) = 6"
  shows "forward sequential bottleneck self x =
    (let y = sequential (backbone self) x;
         y0 = bottleneck (backbone_tails self ! 0) y;
         y1 = bottleneck (backbone_tails self ! 1) y0;
         y2 = bottleneck (backbone_tails self ! 2) y1;
         y3 = bottleneck (backbone_tails self ! 3) y2;
         y4 = bottleneck (backbone_tails self ! 4) y3;
         y5 = bottleneck (backbone_tails self ! 5) y4
     in [(''0'', y0), (''1'', y1), (''2'', y2), (''3'', y3), (''4'', y4), (''5'', y5)])"
proof -
  from assms obtain a b c d e f where ts: "backbone_tails self = [a, b, c, d, e, f]"
    by (rule length6E)
  show ?thesis
    by (simp add: forward_def Let_def ts forward_loop.simps str_digits)
qed

lemma length_backbone_tails: "length (backbone_tails (ReXNetSSDBackbone_init r)) = 6"
  by (simp add: ReXNetSSDBackbone_init_def tail_args_def)

text \<open>
  Claim C1. For every ReXNetV1 instance \<open>r\<close>, the backbone object built from \<open>r\<close>
  retains the feature layers of \<open>r\<close> without the last nine, in their order (all of
  them are dropped when \<open>r\<close> has fewer than nine), and has six tail layers whose
  (in_channels, channels) pairs are (128,672), (672,480), (480,512), (512,256),
  (256,256), (256,128), whose strides are 1, 2, 2, 2, 2, 1, and none of which uses
  squeeze-excitation.
\<close>

theorem ReXNetSSDBackbone_init_layers:
  "backbone (ReXNetSSDBackbone_init r) = take (length (features r) - 9) (features r)
   \<and> length (backbone_tails (ReXNetSSDBackbone_init r)) = 6
   \<and> map (\<lambda>l. (in_channels l, channels l)) (backbone_tails (ReXNetSSDBackbone_init r)) =
       [(128, 672), (672, 480), (480, 512), (512, 256), (256, 256), (256, 128)]
   \<and> map stride (backbone_tails (ReXNetSSDBackbone_init r)) = [1, 2, 2, 2, 2, 1]
   \<and> map use_se (backbone_tails (ReXNetSSDBackbone_init r)) =
       [False, False, False, False, False, False]"
proof -
  have "backbone (ReXNetSSDBackbone_init r) = slice_to (features r) (- 9)"
    by (simp add: ReXNetSSDBackbone_init_def)
  then have "backbone (ReXNetSSDBackbone_init r) = take (length (features r) - 9) (features r)"
    by (simp only: slice_to_minus_nine)
  moreover have "length (backbone_tails (ReXNetSSDBackbone_init r)) = 6"
    by (rule length_backbone_tails)
  moreover have
    "map (\<lambda>l. (in_channels l, channels l)) (backbone_tails (ReXNetSSDBackbone_init r)) =
       [(128, 672), (672, 480), (480, 512), (512, 256), (256, 256), (256, 128)]"
    by (simp add: ReXNetSSDBackbone_init_def tail_args_def)
  moreover have "map stride (backbone_tails (ReXNetSSDBackbone_init r)) = [1, 2, 2, 2, 2, 1]"
    by (simp add: ReXNetSSDBackbone_init_def tail_args_def)
  moreover have "map use_se (backbone_tails (ReXNetSSDBackbone_init r)) =
       [False, False, False, False, False, False]"
    by (simp add: ReXNetSSDBackbone_init_def tail_args_def)
  ultimately show ?thesis by blast
qed

text \<open>
  Claim C2. For every input tensor \<open>x\<close> and every backbone object built by the
  constructor, \<open>forward\<close> applies the truncated backbone to \<open>x\<close>, then the six tail
  layers in index order, each on the output of the one before, and returns the dict
  with exactly the six entries \<^verbatim>\<open>'0'\<close> to \<^verbatim>\<open>'5'\<close>, the key \<^verbatim>\<open>str(i)\<close>
  holding the output of tail \<open>i\<close>.
\<close>

theorem forward_six_outputs:
  "forward sequential bottleneck (ReXNetSSDBackbone_init r) x =
    (let self = ReXNetSSDBackbone_init r;
         y = sequential (backbone self) x;
         y0 = bottleneck (backbone_tails self ! 0) y;
         y1 = bottleneck (backbone_tails self ! 1) y0;
         y2 = bottleneck (backbone_tails self ! 2) y1;
         y3 = bottleneck (backbone_tails self ! 3) y2;
         y4 = bottleneck (backbone_tails self ! 4) y3;
         y5 = bottleneck (backbone_tails self ! 5) y4
     in [(str 0, y0), (str 1, y1), (str 2, y2), (str 3, y3), (str 4, y4), (str 5, y5)])
   \<and> map str [0, 1, 2, 3, 4, 5] = [''0'', ''1'', ''2'', ''3'', ''4'', ''5'']"
proof -
  have keys: "map str [0, 1, 2, 3, 4, 5] = [''0'', ''1'', ''2'', ''3'', ''4'', ''5'']"
    by code_simp
  have "forward sequential bottleneck (ReXNetSSDBackbone_init r) x =
    (let self = ReXNetSSDBackbone_init r;
         y = sequential (backbone self) x;
         y0 = bottleneck (backbone_tails self ! 0) y;
         y1 = bottleneck (backbone_tails self ! 1) y0;
         y2 = bottleneck (backbone_tails self ! 2) y1;
         y3 = bottleneck (backbone_tails self ! 3) y2;
         y4 = bottleneck (backbone_tails self ! 4) y3;
         y5 = bottleneck (backbone_tails self ! 5) y4
     in [(''0'', y0), (''1'', y1), (''2'', y2), (''3'', y3), (''4'', y4), (''5'', y5)])"
    using forward_six_tails [OF length_backbone_tails] by (simp add: Let_def)
  with keys show ?thesis by (simp add: Let_def)
qed


section \<open>Properties of the detector factory\<close>

lemma demo_factory_builds:
  "ssdlite224_rexnet_v1 demo_torch PyNone (PyBool False) (PyInt 3) Map.empty = Inr demo_ssd"
  by (simp add: ssdlite224_rexnet_v1_def demo_torch_def demo_ssd_def Let_def
        ReXNetSSDBackbone_init_def tail_args_def defaults_def eval_nat_numeral)

lemma demo_factory_builds_override:
  "ssdlite224_rexnet_v1 demo_torch PyNone (PyBool False) (PyInt 3) [''nms_thresh'' \<mapsto> PyFloat 0.4] =
     Inr (demo_ssd\<lparr>ssd_kwargs := defaults ++ [''nms_thresh'' \<mapsto> PyFloat 0.4]\<rparr>)"
  by (simp add: ssdlite224_rexnet_v1_def demo_torch_def demo_ssd_def Let_def
        ReXNetSSDBackbone_init_def tail_args_def defaults_def eval_nat_numeral)

lemma demo_factory_builds_classes:
  "ssdlite224_rexnet_v1 demo_torch PyNone f (PyInt k) Map.empty =
     Inr (demo_ssd
            \<lparr>ssd_backbone :=
               ReXNetSSDBackbone_init
                 (if truthy f
                  then \<lparr>features = map (\<lambda>i. \<lparr>weights = i, requires_grad = False\<rparr>) [0..<12]\<rparr>
                  else new_ReXNetV1 demo_torch),
             ssd_num_classes := PyInt k,
             ssd_head := (ssd_head demo_ssd)\<lparr>head_num_classes := PyInt k\<rparr>\<rparr>)"
  by (simp add: ssdlite224_rexnet_v1_def demo_torch_def demo_ssd_def Let_def
        ReXNetSSDBackbone_init_def tail_args_def defaults_def eval_nat_numeral comp_def)

text \<open>
  Claim C5. Whenever \<open>ssdlite224_rexnet_v1\<close> reaches the SSD constructor, the
  keyword arguments the constructor receives hold, under each name, the caller's value
  if the caller gave one and the default otherwise; the defaults are score_thresh =
  0.001, nms_thresh = 0.55, detections_per_img = 300, topk_candidates = 300,
  image_mean = [0.5, 0.5, 0.5] and image_std = [0.5, 0.5, 0.5], and no others.
\<close>

theorem ssd_receives_defaults_unless_overridden:
  assumes "ssdlite224_rexnet_v1 lib backbone_weight_path is_freeze_base_net n kwargs = Inr ssd"
  shows "ssd_kwargs ssd k = (case kwargs k of Some v \<Rightarrow> Some v | None \<Rightarrow> defaults k)
    \<and> defaults ''score_thresh'' = Some (PyFloat 0.001)
    \<and> defaults ''nms_thresh'' = Some (PyFloat 0.55)
    \<and> defaults ''detections_per_img'' = Some (PyInt 300)
    \<and> defaults ''topk_candidates'' = Some (PyInt 300)
    \<and> defaults ''image_mean'' = Some (PyList [PyFloat 0.5, PyFloat 0.5, PyFloat 0.5])
    \<and> defaults ''image_std'' = Some (PyList [PyFloat 0.5, PyFloat 0.5, PyFloat 0.5])
    \<and> dom defaults = {''score_thresh'', ''nms_thresh'', ''detections_per_img'',
         ''topk_candidates'', ''image_mean'', ''image_std''}"
proof -
  from assms have "ssd_kwargs ssd = defaults ++ kwargs"
    by (auto simp: ssdlite224_rexnet_v1_def Let_def split: sum.splits if_splits)
  then have "ssd_kwargs ssd k = (case kwargs k of Some v \<Rightarrow> Some v | None \<Rightarrow> defaults k)"
    by (simp add: map_add_def split: option.splits)
  moreover have "defaults ''score_thresh'' = Some (PyFloat 0.001)"
    by (simp add: defaults_def)
  moreover have "defaults ''nms_thresh'' = Some (PyFloat 0.55)"
    by (simp add: defaults_def)
  moreover have "defaults ''detections_per_img'' = Some (PyInt 300)"
    by (simp add: defaults_def)
  moreover have "defaults ''topk_candidates'' = Some (PyInt 300)"
    by (simp add: defaults_def)
  moreover have "defaults ''image_mean'' = Some (PyList [PyFloat 0.5, PyFloat 0.5, PyFloat 0.5])"
    by (simp add: defaults_def)
  moreover have "defaults ''image_std'' = Some (PyList [PyFloat 0.5, PyFloat 0.5, PyFloat 0.5])"
    by (simp add: defaults_def)
  moreover have "dom defaults = {''score_thresh'', ''nms_thresh'', ''detections_per_img'',
         ''topk_candidates'', ''image_mean'', ''image_std''}"
    by (auto simp add: defaults_def)
  ultimately show ?thesis by blast
qed

theorem ssd_receives_defaults_witness:
  "ssdlite224_rexnet_v1 demo_torch PyNone (PyBool False) (PyInt 3) [''nms_thresh'' \<mapsto> PyFloat 0.4] =
     Inr (demo_ssd\<lparr>ssd_kwargs := defaults ++ [''nms_thresh'' \<mapsto> PyFloat 0.4]\<rparr>)
   \<and> ssd_kwargs (demo_ssd\<lparr>ssd_kwargs := defaults ++ [''nms_thresh'' \<mapsto> PyFloat 0.4]\<rparr>)
        ''nms_thresh'' = Some (PyFloat 0.4)
   \<and> ssd_kwargs (demo_ssd\<lparr>ssd_kwargs := defaults ++ [''nms_thresh'' \<mapsto> PyFloat 0.4]\<rparr>)
        ''score_thresh'' = Some (PyFloat 0.001)"
proof -
  have built:
    "ssdlite224_rexnet_v1 demo_torch PyNone (PyBool False) (PyInt 3) [''nms_thresh'' \<mapsto> PyFloat 0.4] =
       Inr (demo_ssd\<lparr>ssd_kwargs := defaults ++ [''nms_thresh'' \<mapsto> PyFloat 0.4]\<rparr>)"
    by (rule demo_factory_builds_override)
  from ssd_receives_defaults_unless_overridden [OF built, of "''nms_thresh''"]
       ssd_receives_defaults_unless_overridden [OF built, of "''score_thresh''"]
       built
  show ?thesis by simp
qed

text \<open>
  Claim C10, as the code has it. Without the keyword \<^verbatim>\<open>num_classes\<close>,
  \<open>ssdlite224_rexnet_v1_lightning\<close> never returns: it raises \<^verbatim>\<open>TypeError\<close> when
  \<^verbatim>\<open>backbone_weight_path\<close> or \<^verbatim>\<open>is_freeze_base_net\<close> is missing as well, and
  \<^verbatim>\<open>KeyError\<close> once the call \<^verbatim>\<open>ssdlite224_rexnet_v1(**kwargs)\<close> has returned
  its detector, which was then built with the default of 80 classes. With
  \<^verbatim>\<open>num_classes\<close> present and that call returning a detector, the detector was
  built with that number of classes and the result is the \<^verbatim>\<open>ReXNetSSD\<close> that
  wraps it.
\<close>

theorem lightning_num_classes:
  "(kwargs ''num_classes'' = None \<longrightarrow>
      (\<exists>e. ssdlite224_rexnet_v1_lightning lib mlib kwargs = Inl e)
      \<and> (kwargs ''backbone_weight_path'' = None \<or> kwargs ''is_freeze_base_net'' = None \<longrightarrow>
           ssdlite224_rexnet_v1_lightning lib mlib kwargs = Inl TypeError)
      \<and> (ssdlite224_rexnet_v1_call lib kwargs = Inr ssd \<longrightarrow>
           ssd_num_classes ssd = PyInt 80
           \<and> ssdlite224_rexnet_v1_lightning lib mlib kwargs = Inl KeyError))
   \<and> (kwargs ''num_classes'' = Some n \<and> ssdlite224_rexnet_v1_call lib kwargs = Inr ssd \<longrightarrow>
        ssd_num_classes ssd = n
        \<and> ssdlite224_rexnet_v1_lightning lib mlib kwargs =
            Inr \<lparr>model = Some ssd, metric_fn = build_evaluation_metric mlib ''map_2d'' True 3,
                 num_classes = n, logged = []\<rparr>)"
proof -
  have call_classes:
    "ssd_num_classes ssd = (case kwargs ''num_classes'' of None \<Rightarrow> PyInt 80 | Some k \<Rightarrow> k)"
    if "ssdlite224_rexnet_v1_call lib kwargs = Inr ssd"
    using that
    by (auto simp: ssdlite224_rexnet_v1_call_def ssdlite224_rexnet_v1_def Let_def
             split: option.splits sum.splits if_splits)
  show ?thesis
    using call_classes
    by (cases "ssdlite224_rexnet_v1_call lib kwargs")
       (auto simp: ssdlite224_rexnet_v1_lightning_def ReXNetSSD_init_def
                   ssdlite224_rexnet_v1_call_def split: option.splits)
qed

theorem lightning_num_classes_witness:
  "ssdlite224_rexnet_v1_lightning demo_torch demo_metric
       [''backbone_weight_path'' \<mapsto> PyNone, ''is_freeze_base_net'' \<mapsto> PyBool False] = Inl KeyError
   \<and> ssdlite224_rexnet_v1_lightning demo_torch demo_metric
       [''backbone_weight_path'' \<mapsto> PyNone] = Inl TypeError
   \<and> ssdlite224_rexnet_v1_lightning demo_torch demo_metric
       [''backbone_weight_path'' \<mapsto> PyNone, ''is_freeze_base_net'' \<mapsto> PyBool False,
        ''num_classes'' \<mapsto> PyInt 3] = Inr demo_self"
proof -
  let ?k1 = "[''backbone_weight_path'' \<mapsto> PyNone, ''is_freeze_base_net'' \<mapsto> PyBool False]"
  let ?k2 = "[''backbone_weight_path'' \<mapsto> PyNone]"
  let ?k3 = "[''backbone_weight_path'' \<mapsto> PyNone, ''is_freeze_base_net'' \<mapsto> PyBool False,
        ''num_classes'' \<mapsto> PyInt 3]"
  have r1: "?k1 |` (- {''backbone_weight_path'', ''is_freeze_base_net'', ''num_classes''}) = Map.empty"
    by (auto simp: restrict_map_def)
  have r3: "?k3 |` (- {''backbone_weight_path'', ''is_freeze_base_net'', ''num_classes''}) = Map.empty"
    by (auto simp: restrict_map_def)
  have c1: "ssdlite224_rexnet_v1_call demo_torch ?k1 =
      Inr (demo_ssd\<lparr>ssd_num_classes := PyInt 80,
                     ssd_head := (ssd_head demo_ssd)\<lparr>head_num_classes := PyInt 80\<rparr>\<rparr>)"
    unfolding ssdlite224_rexnet_v1_call_def r1
    by (simp add: demo_factory_builds_classes demo_ssd_def)
  have c3: "ssdlite224_rexnet_v1_call demo_torch ?k3 = Inr demo_ssd"
    unfolding ssdlite224_rexnet_v1_call_def r3 by (simp add: demo_factory_builds)
  have b: "build_evaluation_metric demo_metric ''map_2d'' True 3 = ((''map_2d'', True, 3), [])"
    by (simp add: demo_metric_def)
  from lightning_num_classes [of ?k1 demo_torch demo_metric _ "PyInt 3"] c1
  have "ssdlite224_rexnet_v1_lightning demo_torch demo_metric ?k1 = Inl KeyError"
    by simp
  moreover from lightning_num_classes [of ?k2 demo_torch demo_metric]
  have "ssdlite224_rexnet_v1_lightning demo_torch demo_metric ?k2 = Inl TypeError"
    by simp
  moreover from lightning_num_classes [of ?k3 demo_torch demo_metric demo_ssd "PyInt 3"] c3
  have "ssdlite224_rexnet_v1_lightning demo_torch demo_metric ?k3 = Inr demo_self"
    by (simp add: b demo_self_def)
  ultimately show ?thesis by blast
qed

text \<open>
  Claim C10 as it was stated fails. A call with no keyword at all lacks
  \<^verbatim>\<open>num_classes\<close>, and what it raises is the \<^verbatim>\<open>TypeError\<close> of the missing
  arguments of \<open>ssdlite224_rexnet_v1\<close>, not a \<^verbatim>\<open>KeyError\<close>.
\<close>

theorem lightning_no_keywords_raises_TypeError:
  "(Map.empty :: kwargs) ''num_classes'' = None
   \<and> ssdlite224_rexnet_v1_lightning demo_torch demo_metric Map.empty = Inl TypeError
   \<and> ssdlite224_rexnet_v1_lightning demo_torch demo_metric Map.empty \<noteq> Inl KeyError"
  by (simp add: ssdlite224_rexnet_v1_lightning_def ssdlite224_rexnet_v1_call_def)


section \<open>Properties of ReXNetSSD\<close>

text \<open>
  Claim C8. Constructed without a detector but with a number of classes that is not
  \<^verbatim>\<open>None\<close>, a \<^verbatim>\<open>ReXNetSSD\<close> has \<^verbatim>\<open>model = None\<close> and the factory is not
  called (the result does not mention the libraries of the factory). More generally
  the constructor keeps the detector it is given whenever one of its two arguments is
  not \<^verbatim>\<open>None\<close>; only when both are \<^verbatim>\<open>None\<close> is the detector the one the
  factory builds for 20 classes, without weights to load and without freezing.
\<close>

theorem ReXNetSSD_init_fallback:
  "(n \<noteq> PyNone \<longrightarrow>
      ReXNetSSD_init lib mlib None n =
        Inr \<lparr>model = None, metric_fn = build_evaluation_metric mlib ''map_2d'' True 3,
             num_classes = n, logged = []\<rparr>)
   \<and> (m \<noteq> None \<or> n \<noteq> PyNone \<longrightarrow>
      ReXNetSSD_init lib mlib m n =
        Inr \<lparr>model = m, metric_fn = build_evaluation_metric mlib ''map_2d'' True 3,
             num_classes = n, logged = []\<rparr>)
   \<and> ReXNetSSD_init lib mlib None PyNone =
        map_sum id
          (\<lambda>ssd. \<lparr>model = Some ssd, metric_fn = build_evaluation_metric mlib ''map_2d'' True 3,
                  num_classes = PyNone, logged = []\<rparr>)
          (ssdlite224_rexnet_v1 lib PyNone PyNone (PyInt 20) Map.empty)"
  by (cases "ssdlite224_rexnet_v1 lib PyNone PyNone (PyInt 20) Map.empty")
     (simp_all add: ReXNetSSD_init_def)

theorem ReXNetSSD_init_fallback_witness:
  "PyInt 3 \<noteq> PyNone
   \<and> ReXNetSSD_init demo_torch demo_metric None (PyInt 3) =
       Inr \<lparr>model = None, metric_fn = ((''map_2d'', True, 3), []), num_classes = PyInt 3,
            logged = []\<rparr>
   \<and> ReXNetSSD_init demo_torch demo_metric (Some demo_ssd) PyNone =
       Inr \<lparr>model = Some demo_ssd, metric_fn = ((''map_2d'', True, 3), []),
            num_classes = PyNone, logged = []\<rparr>
   \<and> (\<exists>ssd. ReXNetSSD_init demo_torch demo_metric None PyNone =
         Inr \<lparr>model = Some ssd, metric_fn = ((''map_2d'', True, 3), []), num_classes = PyNone,
              logged = []\<rparr>
         \<and> ssd_num_classes ssd = PyInt 20)"
proof -
  have b: "build_evaluation_metric demo_metric ''map_2d'' True 3 = ((''map_2d'', True, 3), [])"
    by (simp add: demo_metric_def)
  from ReXNetSSD_init_fallback [of "PyInt 3" demo_torch demo_metric None]
       ReXNetSSD_init_fallback [of PyNone demo_torch demo_metric "Some demo_ssd"]
  show ?thesis by (simp add: b demo_factory_builds_classes)
qed

text \<open>
  Claim C9. Whatever detector and whatever number of classes a \<^verbatim>\<open>ReXNetSSD\<close> is
  constructed with, its metric is the one built by
  \<^verbatim>\<open>build_evaluation_metric("map_2d", async_mode=True, num_classes=3)\<close>.
\<close>

theorem metric_built_with_three_classes:
  assumes "ReXNetSSD_init lib mlib m n = Inr self"
  shows "metric_fn self = build_evaluation_metric mlib ''map_2d'' True 3"
  using assms by (auto simp: ReXNetSSD_init_def split: sum.splits if_splits)

theorem metric_built_with_three_classes_witness:
  "ReXNetSSD_init demo_torch demo_metric (Some demo_ssd) (PyInt 20) =
     Inr (demo_self\<lparr>num_classes := PyInt 20\<rparr>)
   \<and> metric_fn (demo_self\<lparr>num_classes := PyInt 20\<rparr>) =
       build_evaluation_metric demo_metric ''map_2d'' True 3
   \<and> build_evaluation_metric demo_metric ''map_2d'' True 3 = ((''map_2d'', True, 3), [])"
proof -
  have i: "ReXNetSSD_init demo_torch demo_metric (Some demo_ssd) (PyInt 20) =
     Inr (demo_self\<lparr>num_classes := PyInt 20\<rparr>)"
    by (simp add: ReXNetSSD_init_def demo_self_def demo_metric_def)
  have b: "build_evaluation_metric demo_metric ''map_2d'' True 3 = ((''map_2d'', True, 3), [])"
    by (simp add: demo_metric_def)
  from metric_built_with_three_classes [OF i] i b show ?thesis by simp
qed

lemma foldl_add_sum_list: "foldl (+) a xs = a + sum_list (xs :: real list)"
  by (induction xs arbitrary: a) simp_all

lemma py_sum_sum_list: "py_sum xs = sum_list xs"
  by (simp add: py_sum_def foldl_add_sum_list)

text \<open>
  Claim C4. On a training batch for which the wrapped detector returns a dict of losses
  with the keys \<^verbatim>\<open>bbox_regression\<close> and \<^verbatim>\<open>classification\<close>,
  \<open>training_step\<close> logs those two values and then the total, in that order, and
  returns the total, which is the sum of all values of the dict. The dict is whatever
  the detector returns: nothing of the losses is computed here.
\<close>

theorem training_step_logs_and_returns_total:
  assumes "model self = Some m"
    and "dict_get (losses det m images annotations) ''bbox_regression'' = Some bbox"
    and "dict_get (losses det m images annotations) ''classification'' = Some cls"
  shows "training_step det self (images, annotations) batch_idx =
    (let total = sum_list (map snd (losses det m images annotations))
     in Inr (self\<lparr>logged := logged self @
                  [(''train_loss_bbox_regression'', bbox),
                   (''train_loss_classification'', cls),
                   (''train_loss'', total)]\<rparr>, total))"
  using assms
  by (simp add: training_step_def dict_index_def log_def Let_def py_sum_sum_list)

theorem training_step_witness:
  "model demo_self = Some demo_ssd
   \<and> dict_get (losses demo_detector demo_ssd [7] [demo_annotation]) ''bbox_regression'' = Some 2
   \<and> dict_get (losses demo_detector demo_ssd [7] [demo_annotation]) ''classification'' = Some 1
   \<and> training_step demo_detector demo_self ([7], [demo_annotation]) 0 =
       Inr (demo_self\<lparr>logged :=
              [(''train_loss_bbox_regression'', 2), (''train_loss_classification'', 1),
               (''train_loss'', 3)]\<rparr>, 3)"
proof -
  have m: "model demo_self = Some demo_ssd"
    by (simp add: demo_self_def)
  have b: "dict_get (losses demo_detector demo_ssd [7] [demo_annotation]) ''bbox_regression'' = Some 2"
    by (simp add: demo_detector_def)
  have c: "dict_get (losses demo_detector demo_ssd [7] [demo_annotation]) ''classification'' = Some 1"
    by (simp add: demo_detector_def)
  have l: "logged demo_self = []"
    by (simp add: demo_self_def)
  have s: "sum_list (map snd (losses demo_detector demo_ssd [7] [demo_annotation])) = 3"
    by (simp add: demo_detector_def)
  from training_step_logs_and_returns_total [OF m b c, of 0] m b c show ?thesis
    by (simp add: Let_def l s)
qed


subsection \<open>validation_step\<close>

text \<open>
  The two calls of \<^verbatim>\<open>np.concatenate\<close> on well-shaped inputs give the rows of the
  documentation.
\<close>

lemma concatenate1_preds:
  assumes "length ls = length bs" and "length ss = length bs"
  shows "concatenate1 [box_rows bs, expand_dims1 (map real_of_int ls), expand_dims1 ss] =
    Inr (map (\<lambda>((x1, y1, x2, y2), l, s). [x1, y1, x2, y2, real_of_int l, s])
           (zip bs (zip ls ss)))"
proof -
  from assms have "length bs = length ls" and "length ls = length ss"
    by simp_all
  then have
    "map2 (@) (map2 (@) (box_rows bs) (expand_dims1 (map real_of_int ls))) (expand_dims1 ss) =
     map (\<lambda>((x1, y1, x2, y2), l, s). [x1, y1, x2, y2, real_of_int l, s]) (zip bs (zip ls ss))"
    by (induction bs ls ss rule: list_induct3) (auto simp: box_rows_def expand_dims1_def)
  with assms show ?thesis
    by (simp add: box_rows_def expand_dims1_def)
qed

lemma concatenate1_gt:
  assumes "length ls = length bs"
  shows "concatenate1 [box_rows bs, expand_dims1 (map real_of_int ls),
                       replicate (length bs) [0, 0]] =
    Inr (map (\<lambda>((x1, y1, x2, y2), l). [x1, y1, x2, y2, real_of_int l, 0, 0]) (zip bs ls))"
proof -
  from assms have "length bs = length ls"
    by simp
  then have
    "map2 (@) (map2 (@) (box_rows bs) (expand_dims1 (map real_of_int ls)))
       (replicate (length bs) [0, 0]) =
     map (\<lambda>((x1, y1, x2, y2), l). [x1, y1, x2, y2, real_of_int l, 0, 0]) (zip bs ls)"
    by (induction bs ls rule: list_induct2) (auto simp: box_rows_def expand_dims1_def)
  with assms show ?thesis
    by (simp add: box_rows_def expand_dims1_def)
qed

text \<open>
  From index \<open>idx\<close> on, the loop adds the pair of each remaining image to the metric,
  in order. The induction is on the number of images left.
\<close>

lemma validation_loop_adds:
  assumes "length dets = length anns"
    and "list_all well_shaped_detection dets"
    and "list_all well_shaped_annotation anns"
  shows "validation_loop mlib dets (map ann_boxes anns) (map ann_labels anns) idx ms =
    Inr (foldl (\<lambda>s (preds, gt). metric_add mlib s preds gt) ms
           (drop idx (zip (map preds_rows dets) (map gt_rows anns))))"
  using assms
proof (induction "length dets - idx" arbitrary: idx ms)
  case 0
  then show ?case
    by (simp add: validation_loop.simps)
next
  case (Suc k)
  then have idx: "idx < length dets" and k: "k = length dets - (idx + 1)"
    by simp_all
  from idx Suc.prems have d: "well_shaped_detection (dets ! idx)"
    and a: "well_shaped_annotation (anns ! idx)"
    by (simp_all add: list_all_length)
  have p: "concatenate1 [box_rows (boxes (dets ! idx)),
                         expand_dims1 (map real_of_int (labels (dets ! idx))),
                         expand_dims1 (scores (dets ! idx))] = Inr (preds_rows (dets ! idx))"
    using d by (simp only: preds_rows_def well_shaped_detection_def concatenate1_preds)
  have g: "concatenate1 [box_rows (ann_boxes (anns ! idx)),
                         expand_dims1 (map real_of_int (ann_labels (anns ! idx))),
                         replicate (length (ann_boxes (anns ! idx))) [0, 0]] =
           Inr (gt_rows (anns ! idx))"
    using a by (simp only: gt_rows_def well_shaped_annotation_def concatenate1_gt)
  have rest: "drop idx (zip (map preds_rows dets) (map gt_rows anns)) =
      (preds_rows (dets ! idx), gt_rows (anns ! idx)) #
      drop (idx + 1) (zip (map preds_rows dets) (map gt_rows anns))"
    using idx Suc.prems(1) by (simp add: Cons_nth_drop_Suc [symmetric])
  have "validation_loop mlib dets (map ann_boxes anns) (map ann_labels anns) idx ms =
     validation_loop mlib dets (map ann_boxes anns) (map ann_labels anns) (idx + 1)
       (metric_add mlib ms (preds_rows (dets ! idx)) (gt_rows (anns ! idx)))"
    using idx Suc.prems(1) p g
    by (subst validation_loop.simps) (simp add: Let_def)
  also have "\<dots> = Inr (foldl (\<lambda>s (preds, gt). metric_add mlib s preds gt)
       (metric_add mlib ms (preds_rows (dets ! idx)) (gt_rows (anns ! idx)))
           (drop (idx + 1) (zip (map preds_rows dets) (map gt_rows anns))))"
    using Suc.hyps(1) [OF k Suc.prems] .
  finally show ?case
    by (simp add: rest)
qed

text \<open>
  Claim C3. On a validation batch with one annotation per image, for which the wrapped
  detector returns one detection per image, all of them well shaped,
  \<open>validation_step\<close> adds to the metric exactly one pair per image, in the order of
  the images: the predictions as rows \<^verbatim>\<open>[x1, y1, x2, y2, label, score]\<close> and the
  ground truth as rows \<^verbatim>\<open>[x1, y1, x2, y2, label, 0, 0]\<close>. It then returns (and logs
  as \<^verbatim>\<open>valid_mean_ap\<close>) the entry \<^verbatim>\<open>mAP\<close> of the metric's value at the IoU
  threshold 0.5.
\<close>

theorem validation_step_adds_one_pair_per_image:
  assumes "model self = Some m"
    and "length (detections det m images) = length images"
    and "length annotations = length images"
    and "list_all well_shaped_detection (detections det m images)"
    and "list_all well_shaped_annotation annotations"
  shows "(let pairs = zip (map preds_rows (detections det m images)) (map gt_rows annotations);
              ms = foldl (\<lambda>s (preds, gt). metric_add mlib s preds gt) (metric_fn self) pairs
          in length pairs = length images
             \<and> validation_step det mlib self (images, annotations) batch_idx =
                 (case dict_get (metric_value mlib ms 0.5) ''mAP'' of
                    None \<Rightarrow> Inl KeyError
                  | Some v \<Rightarrow>
                      Inr (self\<lparr>metric_fn := ms,
                                logged := logged self @ [(''valid_mean_ap'', v)]\<rparr>, v)))"
proof -
  from assms have len: "length (detections det m images) = length annotations"
    by simp
  have loop: "validation_loop mlib (detections det m images) (map ann_boxes annotations)
        (map ann_labels annotations) 0 (metric_fn self) =
      Inr (foldl (\<lambda>s (preds, gt). metric_add mlib s preds gt) (metric_fn self)
             (zip (map preds_rows (detections det m images)) (map gt_rows annotations)))"
    using validation_loop_adds [OF len assms(4) assms(5), of mlib 0 "metric_fn self"]
    by simp
  show ?thesis
    using assms(1-3) loop
    by (simp add: validation_step_def Let_def dict_index_def log_def split: option.splits)
qed

theorem validation_step_witness:
  "model demo_self = Some demo_ssd
   \<and> length (detections demo_detector demo_ssd [7, 8]) = length [7, 8 :: nat]
   \<and> length [demo_annotation, demo_annotation] = length [7, 8 :: nat]
   \<and> list_all well_shaped_detection (detections demo_detector demo_ssd [7, 8])
   \<and> list_all well_shaped_annotation [demo_annotation, demo_annotation]
   \<and> validation_step demo_detector demo_metric demo_self
        ([7, 8], [demo_annotation, demo_annotation]) 0 =
       Inr (demo_self
              \<lparr>metric_fn :=
                 ((''map_2d'', True, 3),
                  [([[0, 0, 1, 1, 2, 1]], [[0, 0, 1, 1, 2, 0, 0], [1, 1, 2, 2, 1, 0, 0]]),
                   ([[0, 0, 1, 1, 2, 1]], [[0, 0, 1, 1, 2, 0, 0], [1, 1, 2, 2, 1, 0, 0]])]),
               logged := [(''valid_mean_ap'', 2)]\<rparr>, 2)"
proof -
  have m: "model demo_self = Some demo_ssd"
    by (simp add: demo_self_def)
  have d: "length (detections demo_detector demo_ssd [7, 8]) = length [7, 8 :: nat]"
    by (simp add: demo_detector_def)
  have a: "length [demo_annotation, demo_annotation] = length [7, 8 :: nat]"
    by simp
  have wd: "list_all well_shaped_detection (detections demo_detector demo_ssd [7, 8])"
    by (simp add: demo_detector_def well_shaped_detection_def)
  have wa: "list_all well_shaped_annotation [demo_annotation, demo_annotation]"
    by (simp add: demo_annotation_def well_shaped_annotation_def)
  have p: "map preds_rows (detections demo_detector demo_ssd [7, 8]) =
      [[[0, 0, 1, 1, 2, 1]], [[0, 0, 1, 1, 2, 1]]]"
    by (simp add: demo_detector_def preds_rows_def)
  have g: "gt_rows demo_annotation = [[0, 0, 1, 1, 2, 0, 0], [1, 1, 2, 2, 1, 0, 0]]"
    by (simp add: demo_annotation_def gt_rows_def)
  have s: "metric_fn demo_self = ((''map_2d'', True, 3), [])" "logged demo_self = []"
    by (simp_all add: demo_self_def)
  from validation_step_adds_one_pair_per_image [OF m d a wd wa, of demo_metric 0]
  have "validation_step demo_detector demo_metric demo_self
          ([7, 8], [demo_annotation, demo_annotation]) 0 =
       Inr (demo_self
              \<lparr>metric_fn :=
                 ((''map_2d'', True, 3),
                  [([[0, 0, 1, 1, 2, 1]], [[0, 0, 1, 1, 2, 0, 0], [1, 1, 2, 2, 1, 0, 0]]),
                   ([[0, 0, 1, 1, 2, 1]], [[0, 0, 1, 1, 2, 0, 0], [1, 1, 2, 2, 1, 0, 0]])]),
               logged := [(''valid_mean_ap'', 2)]\<rparr>, 2)"
    by (simp add: Let_def p g s demo_metric_def)
  with m d a wd wa show ?thesis
    by blast
qed


subsection \<open>A validation epoch\<close>

text \<open>
  \<open>validation_step\<close> reads of the object only the detector and the metric state, so
  two objects that agree on these take the same step; by induction on the batches they
  take the same steps through a whole epoch.
\<close>

lemma validation_step_same_view:
  assumes "same_view a b"
  shows "rel_sum (=) (\<lambda>(a', v) (b', w). same_view a' b' \<and> v = w)
           (validation_step det mlib a batch i) (validation_step det mlib b batch j)"
  using assms
  by (cases batch)
     (auto simp: validation_step_def same_view_def Let_def log_def dict_index_def
           split: option.splits sum.splits)

lemma validation_steps_same_view:
  assumes "same_view a b"
  shows "rel_sum (=) (\<lambda>(a', vs) (b', ws). same_view a' b' \<and> vs = ws)
           (validation_steps det mlib a batches i) (validation_steps det mlib b batches i)"
  using assms
proof (induction batches arbitrary: a b i)
  case Nil
  then show ?case
    by simp
next
  case (Cons x xs)
  have step: "rel_sum (=) (\<lambda>(a', v) (b', w). same_view a' b' \<and> v = w)
           (validation_step det mlib a x i) (validation_step det mlib b x i)"
    using Cons.prems by (rule validation_step_same_view)
  show ?case
  proof (cases "validation_step det mlib a x i")
    case (Inl e)
    with step show ?thesis
      by (cases "validation_step det mlib b x i") auto
  next
    case (Inr r)
    then obtain a' v where ra: "validation_step det mlib a x i = Inr (a', v)"
      by (cases r) auto
    with step obtain b' where rb: "validation_step det mlib b x i = Inr (b', v)"
      and sv: "same_view a' b'"
      by (cases "validation_step det mlib b x i") auto
    from Cons.IH [OF sv, of "i + 1"] show ?thesis
      by (cases "validation_steps det mlib a' xs (i + 1)";
          cases "validation_steps det mlib b' xs (i + 1)")
         (auto simp: ra rb)
  qed
qed

text \<open>
  A step that returns has appended its value to the log under \<^verbatim>\<open>valid_mean_ap\<close>
  and nothing else, so the steps of an epoch append exactly the values they return.
\<close>

lemma validation_step_logged:
  assumes "validation_step det mlib self batch i = Inr (self', v)"
  shows "logged self' = logged self @ [(''valid_mean_ap'', v)]"
  using assms
  by (cases batch)
     (auto simp: validation_step_def Let_def log_def dict_index_def
           split: option.splits sum.splits)

lemma validation_steps_logged:
  assumes "validation_steps det mlib self batches i = Inr (self', vs)"
  shows "logged self' = logged self @ map (Pair ''valid_mean_ap'') vs"
  using assms
proof (induction batches arbitrary: self i vs)
  case Nil
  then show ?case
    by simp
next
  case (Cons x xs)
  from Cons.prems obtain s1 v ws
    where first: "validation_step det mlib self x i = Inr (s1, v)"
      and rest: "validation_steps det mlib s1 xs (i + 1) = Inr (self', ws)"
      and vs: "vs = v # ws"
    by (auto split: sum.splits)
  from validation_step_logged [OF first] Cons.IH [OF rest] vs show ?case
    by simp
qed

lemma demo_epoch:
  "map_sum id
       (\<lambda>(self', vs, v). (metric_fn self', drop (length (logged demo_self)) (logged self'), vs, v))
       (validation_epoch demo_detector demo_metric demo_self [([7], [demo_annotation])]) =
     Inr (((''map_2d'', True, 3),
           [([[0, 0, 1, 1, 2, 1]], [[0, 0, 1, 1, 2, 0, 0], [1, 1, 2, 2, 1, 0, 0]])]),
          [(''valid_mean_ap'', 1)], [1], 1)"
  by (simp add: validation_epoch_def on_validation_epoch_start_def on_validation_epoch_end_def
        validation_step_def validation_loop.simps Let_def dict_index_def log_def
        box_rows_def expand_dims1_def
        demo_self_def demo_metric_def demo_detector_def demo_annotation_def)

text \<open>
  Claim C7. \<open>on_validation_epoch_start\<close> resets the metric. Hence, for two objects
  that wrap the same detector and whose metrics reset to the same state (as any two
  states of one metric object do when \<^verbatim>\<open>reset\<close> forgets the pairs added so far),
  a validation epoch over the same batches gives the same result: the same exception,
  or the same value returned by every step, the same entries appended to the log
  during the epoch, the same value reported at the end of the epoch and the same final
  metric state. What earlier epochs left in the metric or in the log has no influence.
\<close>

theorem validation_epoch_independent_of_earlier_epochs:
  assumes "metric_reset mlib (metric_fn a) = metric_reset mlib (metric_fn b)"
    and "model a = model b"
  shows "metric_fn (on_validation_epoch_start mlib a) = metric_reset mlib (metric_fn a)
    \<and> map_sum id
         (\<lambda>(self', vs, v). (metric_fn self', drop (length (logged a)) (logged self'), vs, v))
         (validation_epoch det mlib a batches) =
       map_sum id
         (\<lambda>(self', vs, v). (metric_fn self', drop (length (logged b)) (logged self'), vs, v))
         (validation_epoch det mlib b batches)"
proof -
  let ?a0 = "on_validation_epoch_start mlib a" and ?b0 = "on_validation_epoch_start mlib b"
  have start: "metric_fn ?a0 = metric_reset mlib (metric_fn a)"
    by (simp add: on_validation_epoch_start_def)
  have la: "logged ?a0 = logged a" and lb: "logged ?b0 = logged b"
    by (simp_all add: on_validation_epoch_start_def)
  from assms have "same_view ?a0 ?b0"
    by (simp add: same_view_def on_validation_epoch_start_def)
  then have steps: "rel_sum (=) (\<lambda>(a', vs) (b', ws). same_view a' b' \<and> vs = ws)
           (validation_steps det mlib ?a0 batches 0) (validation_steps det mlib ?b0 batches 0)"
    by (rule validation_steps_same_view)
  have "map_sum id
          (\<lambda>(self', vs, v). (metric_fn self', drop (length (logged a)) (logged self'), vs, v))
          (validation_epoch det mlib a batches) =
        map_sum id
          (\<lambda>(self', vs, v). (metric_fn self', drop (length (logged b)) (logged self'), vs, v))
          (validation_epoch det mlib b batches)"
  proof (cases "validation_steps det mlib ?a0 batches 0")
    case (Inl e)
    with steps have "validation_steps det mlib ?b0 batches 0 = Inl e"
      by (cases "validation_steps det mlib ?b0 batches 0") auto
    with Inl show ?thesis
      by (simp add: validation_epoch_def)
  next
    case (Inr r)
    then obtain a' vs where ra: "validation_steps det mlib ?a0 batches 0 = Inr (a', vs)"
      by (cases r) auto
    with steps obtain b' where rb: "validation_steps det mlib ?b0 batches 0 = Inr (b', vs)"
      and sv: "same_view a' b'"
      by (cases "validation_steps det mlib ?b0 batches 0") auto
    have "drop (length (logged a)) (logged a') = map (Pair ''valid_mean_ap'') vs"
      using validation_steps_logged [OF ra] by (simp add: la)
    moreover have "drop (length (logged b)) (logged b') = map (Pair ''valid_mean_ap'') vs"
      using validation_steps_logged [OF rb] by (simp add: lb)
    ultimately show ?thesis
      using sv
      by (auto simp: validation_epoch_def on_validation_epoch_end_def same_view_def ra rb
               split: sum.splits)
  qed
  with start show ?thesis
    by simp
qed

theorem validation_epoch_witness:
  "metric_reset demo_metric (metric_fn demo_stale) = metric_reset demo_metric (metric_fn demo_self)
   \<and> model demo_stale = model demo_self
   \<and> metric_fn demo_stale \<noteq> metric_fn demo_self
   \<and> logged demo_stale \<noteq> logged demo_self
   \<and> map_sum id
       (\<lambda>(self', vs, v). (metric_fn self', drop (length (logged demo_stale)) (logged self'), vs, v))
       (validation_epoch demo_detector demo_metric demo_stale [([7], [demo_annotation])]) =
     Inr (((''map_2d'', True, 3),
           [([[0, 0, 1, 1, 2, 1]], [[0, 0, 1, 1, 2, 0, 0], [1, 1, 2, 2, 1, 0, 0]])]),
          [(''valid_mean_ap'', 1)], [1], 1)"
proof -
  have r: "metric_reset demo_metric (metric_fn demo_stale) =
           metric_reset demo_metric (metric_fn demo_self)"
    by (simp add: demo_stale_def demo_self_def demo_metric_def)
  have m: "model demo_stale = model demo_self"
    by (simp add: demo_stale_def)
  have n: "metric_fn demo_stale \<noteq> metric_fn demo_self"
    by (simp add: demo_stale_def demo_self_def)
  have l: "logged demo_stale \<noteq> logged demo_self"
    by (simp add: demo_stale_def demo_self_def)
  from validation_epoch_independent_of_earlier_epochs
         [OF r m, of demo_detector "[([7], [demo_annotation])]"]
  have "map_sum id
       (\<lambda>(self', vs, v). (metric_fn self', drop (length (logged demo_stale)) (logged self'), vs, v))
       (validation_epoch demo_detector demo_metric demo_stale [([7], [demo_annotation])]) =
     Inr (((''map_2d'', True, 3),
           [([[0, 0, 1, 1, 2, 1]], [[0, 0, 1, 1, 2, 0, 0], [1, 1, 2, 2, 1, 0, 0]])]),
          [(''valid_mean_ap'', 1)], [1], 1)"
    by (simp only: demo_epoch)
  with r m n l show ?thesis
    by blast
qed

end
